theory Spec2Isabelle
  imports Complex_Main "HOL-Library.AList"
begin

section \<open>Numeric values\<close>

text \<open>
  The service computes on numpy float64 values held in pandas columns. A value is a
  finite number, one of the two infinities, or NaN (pandas' marker of a missing cell).
  Finite values are idealised as exact reals: rounding, overflow and the sign of zero are
  not modelled. Arithmetic on the special values follows IEEE 754 as numpy applies it:
  no operation raises, a division by zero yields an infinity or NaN, and every ordered
  comparison with NaN is false.
\<close>

datatype npfloat = Num real | PosInf | NegInf | NaN

fun np_neg :: "npfloat \<Rightarrow> npfloat" where
  "np_neg (Num a) = Num (- a)"
| "np_neg PosInf = NegInf"
| "np_neg NegInf = PosInf"
| "np_neg NaN = NaN"

fun np_add :: "npfloat \<Rightarrow> npfloat \<Rightarrow> npfloat" where
  "np_add (Num a) (Num b) = Num (a + b)"
| "np_add NaN _ = NaN"
| "np_add _ NaN = NaN"
| "np_add PosInf NegInf = NaN"
| "np_add NegInf PosInf = NaN"
| "np_add PosInf _ = PosInf"
| "np_add _ PosInf = PosInf"
| "np_add NegInf _ = NegInf"
| "np_add _ NegInf = NegInf"

definition np_sub :: "npfloat \<Rightarrow> npfloat \<Rightarrow> npfloat" where
  "np_sub x y = np_add x (np_neg y)"

fun np_mul :: "npfloat \<Rightarrow> npfloat \<Rightarrow> npfloat" where
  "np_mul (Num a) (Num b) = Num (a * b)"
| "np_mul NaN _ = NaN"
| "np_mul _ NaN = NaN"
| "np_mul PosInf (Num b) = (if b = 0 then NaN else if 0 < b then PosInf else NegInf)"
| "np_mul NegInf (Num b) = (if b = 0 then NaN else if 0 < b then NegInf else PosInf)"
| "np_mul (Num a) PosInf = (if a = 0 then NaN else if 0 < a then PosInf else NegInf)"
| "np_mul (Num a) NegInf = (if a = 0 then NaN else if 0 < a then NegInf else PosInf)"
| "np_mul PosInf PosInf = PosInf"
| "np_mul PosInf NegInf = NegInf"
| "np_mul NegInf PosInf = NegInf"
| "np_mul NegInf NegInf = PosInf"

fun np_div :: "npfloat \<Rightarrow> npfloat \<Rightarrow> npfloat" where
  "np_div (Num a) (Num b) =
     (if b \<noteq> 0 then Num (a / b)
      else if a = 0 then NaN else if 0 < a then PosInf else NegInf)"
| "np_div NaN _ = NaN"
| "np_div _ NaN = NaN"
| "np_div (Num a) PosInf = Num 0"
| "np_div (Num a) NegInf = Num 0"
| "np_div PosInf (Num b) = (if 0 \<le> b then PosInf else NegInf)"
| "np_div NegInf (Num b) = (if 0 \<le> b then NegInf else PosInf)"
| "np_div PosInf PosInf = NaN"
| "np_div PosInf NegInf = NaN"
| "np_div NegInf PosInf = NaN"
| "np_div NegInf NegInf = NaN"

fun np_abs :: "npfloat \<Rightarrow> npfloat" where
  "np_abs (Num a) = Num \<bar>a\<bar>"
| "np_abs PosInf = PosInf"
| "np_abs NegInf = PosInf"
| "np_abs NaN = NaN"

fun np_less :: "npfloat \<Rightarrow> npfloat \<Rightarrow> bool" where
  "np_less (Num a) (Num b) = (a < b)"
| "np_less NaN _ = False"
| "np_less _ NaN = False"
| "np_less NegInf NegInf = False"
| "np_less NegInf _ = True"
| "np_less PosInf _ = False"
| "np_less (Num a) PosInf = True"
| "np_less (Num a) NegInf = False"

definition np_greater :: "npfloat \<Rightarrow> npfloat \<Rightarrow> bool" where
  "np_greater x y = np_less y x"

section \<open>Data frames\<close>

text \<open>
  A pandas DataFrame: the index (bar timestamps, seconds) and the named columns in their
  order, every column as long as the index. \<open>df[c]\<close> on a missing column raises KeyError
  (\<open>None\<close> here); \<open>df[c] = s\<close> replaces the column in place or appends it.
\<close>

type_synonym series = "npfloat list"

record frame =
  index :: "nat list"
  cols :: "(string \<times> series) list"

definition len :: "frame \<Rightarrow> nat" where
  "len df = length (index df)"

definition wf_frame :: "frame \<Rightarrow> bool" where
  "wf_frame df = list_all (\<lambda>(c, xs). length xs = len df) (cols df)"

definition has_col :: "frame \<Rightarrow> string \<Rightarrow> bool" where
  "has_col df c = (map_of (cols df) c \<noteq> None)"

definition get_col :: "frame \<Rightarrow> string \<Rightarrow> series option" where
  "get_col df c = map_of (cols df) c"

definition set_col :: "string \<Rightarrow> series \<Rightarrow> frame \<Rightarrow> frame" where
  "set_col c xs df = df\<lparr>cols := AList.update c xs (cols df)\<rparr>"

text \<open>\<open>Series.shift(k)\<close>: values move \<open>k\<close> rows down (up when \<open>k\<close> is negative); the
  vacated rows are NaN and the length is kept.\<close>

definition shift :: "int \<Rightarrow> series \<Rightarrow> series" where
  "shift k xs =
     (if 0 \<le> k then take (length xs) (replicate (nat k) NaN @ xs)
      else drop (nat (- k)) xs @ replicate (min (nat (- k)) (length xs)) NaN)"

text \<open>\<open>df.dropna()\<close>: the rows without a NaN in any column, in their order.\<close>

definition row_complete :: "frame \<Rightarrow> nat \<Rightarrow> bool" where
  "row_complete df i = list_all (\<lambda>(c, xs). xs ! i \<noteq> NaN) (cols df)"

definition kept_rows :: "frame \<Rightarrow> nat list" where
  "kept_rows df = filter (row_complete df) [0..<len df]"

definition take_rows :: "nat list \<Rightarrow> frame \<Rightarrow> frame" where
  "take_rows is df =
     \<lparr>index = map (\<lambda>i. index df ! i) is,
      cols = map (\<lambda>(c, xs). (c, map (\<lambda>i. xs ! i) is)) (cols df)\<rparr>"

definition dropna :: "frame \<Rightarrow> frame" where
  "dropna df = take_rows (kept_rows df) df"

section \<open>Label generator\<close>

text \<open>
  \<open>create_labels\<close>: the future return over \<open>lookahead\<close> bars and the label column
  (1 buy, 0 hold, -1 sell). The sell assignment runs after the buy assignment. A missing
  \<open>close\<close> column raises before anything is assigned, and the handler returns the frame.
\<close>

definition future_return :: "int \<Rightarrow> series \<Rightarrow> series" where
  "future_return lookahead close =
     map (\<lambda>x. np_sub x (Num 1)) (map2 np_div (shift (- lookahead) close) close)"

text \<open>\<open>df.loc[mask, c] = v\<close> on a column: the rows of the mask take the value.\<close>

definition loc_set :: "bool list \<Rightarrow> npfloat \<Rightarrow> series \<Rightarrow> series" where
  "loc_set msk v xs = map2 (\<lambda>m x. if m then v else x) msk xs"

definition label_column :: "real \<Rightarrow> series \<Rightarrow> series" where
  "label_column threshold fr =
     (let l0 = map (\<lambda>_. Num 0) fr;
          l1 = loc_set (map (\<lambda>r. np_greater r (Num threshold)) fr) (Num 1) l0
      in loc_set (map (\<lambda>r. np_less r (Num (- threshold))) fr) (Num (- 1)) l1)"

definition create_labels :: "frame \<Rightarrow> int \<Rightarrow> real \<Rightarrow> frame" where
  "create_labels df lookahead threshold =
     (case get_col df ''close'' of
        None \<Rightarrow> df
      | Some close \<Rightarrow>
          let fr = future_return lookahead close;
              df1 = set_col ''future_return'' fr df
          in set_col ''label'' (label_column threshold fr) df1)"

section \<open>External collaborators\<close>

text \<open>
  The service calls MetaTrader 5, the \<open>ta\<close> indicator library and scikit-learn. None of
  them is part of the repository, so each call the service makes is a field of the
  environment; \<open>None\<close> is a call that raises. A series an indicator returns is on the
  index of its input. \<open>'m\<close> is a fitted classifier, \<open>'s\<close> a fitted scaler.
\<close>

datatype mt5_timeframe = TIMEFRAME_M1 | TIMEFRAME_M5 | TIMEFRAME_M15 | TIMEFRAME_M30
  | TIMEFRAME_H1 | TIMEFRAME_H4 | TIMEFRAME_D1

type_synonym matrix = "npfloat list list"

record rf_params =
  n_estimators :: nat
  max_depth :: nat
  min_samples_split :: nat
  min_samples_leaf :: nat
  random_state :: nat
  n_jobs :: int

record ('m, 's) env =
  mt5_copy_rates_from_pos :: "string \<Rightarrow> mt5_timeframe \<Rightarrow> int \<Rightarrow> int \<Rightarrow> frame option"
  ta_sma_indicator :: "series \<Rightarrow> nat \<Rightarrow> series option"
  ta_ema_indicator :: "series \<Rightarrow> nat \<Rightarrow> series option"
  ta_bollinger_hband :: "series \<Rightarrow> series option"
  ta_bollinger_mavg :: "series \<Rightarrow> series option"
  ta_bollinger_lband :: "series \<Rightarrow> series option"
  ta_rsi :: "series \<Rightarrow> nat \<Rightarrow> series option"
  ta_macd :: "series \<Rightarrow> series option"
  ta_macd_signal :: "series \<Rightarrow> series option"
  ta_macd_diff :: "series \<Rightarrow> series option"
  ta_stoch :: "series \<Rightarrow> series \<Rightarrow> series \<Rightarrow> series option"
  ta_stoch_signal :: "series \<Rightarrow> series \<Rightarrow> series \<Rightarrow> series option"
  ta_average_true_range :: "series \<Rightarrow> series \<Rightarrow> series \<Rightarrow> series option"
  ta_volume_sma :: "series \<Rightarrow> series \<Rightarrow> series option"
  sk_train_test_split ::
    "matrix \<Rightarrow> series \<Rightarrow> real \<Rightarrow> nat \<Rightarrow> (matrix \<times> matrix \<times> series \<times> series) option"
  sk_fit_transform :: "matrix \<Rightarrow> ('s \<times> matrix) option"
  sk_transform :: "'s \<Rightarrow> matrix \<Rightarrow> matrix option"
  sk_fit :: "rf_params \<Rightarrow> matrix \<Rightarrow> series \<Rightarrow> 'm option"
  sk_score :: "'m \<Rightarrow> matrix \<Rightarrow> series \<Rightarrow> real option"
  sk_predict :: "'m \<Rightarrow> matrix \<Rightarrow> int list option"
  sk_predict_proba :: "'m \<Rightarrow> matrix \<Rightarrow> matrix option"

section \<open>Service state\<close>

text \<open>
  The fields of \<open>AITradingService\<close>. The scaler object exists from construction and is
  unfitted until a training run fits it; the classifier object is created unfitted by a
  training run and fitted in place.
\<close>

datatype 's scaler_obj = UnfittedScaler | FittedScaler 's

datatype 'm model_obj = UnfittedModel rf_params | FittedModel 'm

record ('m, 's) service =
  model :: "'m model_obj option"
  scaler :: "'s scaler_obj"
  is_trained :: bool
  feature_columns :: "string list"

definition init_service :: "('m, 's) service" where
  "init_service =
     \<lparr>model = None, scaler = UnfittedScaler, is_trained = False, feature_columns = []\<rparr>"

section \<open>Market data\<close>

definition timeframe_map :: "string \<Rightarrow> mt5_timeframe" where
  "timeframe_map timeframe =
     (case map_of
        [(''M1'', TIMEFRAME_M1), (''M5'', TIMEFRAME_M5), (''M15'', TIMEFRAME_M15),
         (''M30'', TIMEFRAME_M30), (''H1'', TIMEFRAME_H1), (''H4'', TIMEFRAME_H4),
         (''D1'', TIMEFRAME_D1)] timeframe of
        None \<Rightarrow> TIMEFRAME_H1
      | Some t \<Rightarrow> t)"

definition get_market_data ::
  "('m, 's) env \<Rightarrow> string \<Rightarrow> string \<Rightarrow> int \<Rightarrow> frame option" where
  "get_market_data e symbol timeframe count =
     (case mt5_copy_rates_from_pos e symbol (timeframe_map timeframe) 0 count of
        None \<Rightarrow> None
      | Some df \<Rightarrow> if len df = 0 then None else Some df)"

section \<open>Feature pipeline\<close>

text \<open>
  \<open>calculate_technical_indicators\<close> assigns its columns one after the other inside one
  \<open>try\<close>; when an assignment raises, the handler returns the frame with the columns
  assigned so far.
\<close>

type_synonym step = "frame \<Rightarrow> frame option"

fun run_steps :: "step list \<Rightarrow> frame \<Rightarrow> frame" where
  "run_steps [] df = df"
| "run_steps (st # sts) df =
     (case st df of None \<Rightarrow> df | Some df' \<Rightarrow> run_steps sts df')"

definition assign :: "string \<Rightarrow> (frame \<Rightarrow> series option) \<Rightarrow> step" where
  "assign c rhs df = map_option (\<lambda>xs. set_col c xs df) (rhs df)"

definition when_col :: "string \<Rightarrow> step \<Rightarrow> step" where
  "when_col c st df = (if has_col df c then st df else Some df)"

definition on1 :: "string \<Rightarrow> (series \<Rightarrow> series option) \<Rightarrow> frame \<Rightarrow> series option" where
  "on1 a f df = Option.bind (get_col df a) f"

definition on2 ::
  "string \<Rightarrow> string \<Rightarrow> (series \<Rightarrow> series \<Rightarrow> series option) \<Rightarrow> frame \<Rightarrow> series option" where
  "on2 a b f df =
     Option.bind (get_col df a) (\<lambda>x. Option.bind (get_col df b) (\<lambda>y. f x y))"

definition on3 ::
  "string \<Rightarrow> string \<Rightarrow> string \<Rightarrow> (series \<Rightarrow> series \<Rightarrow> series \<Rightarrow> series option) \<Rightarrow>
   frame \<Rightarrow> series option" where
  "on3 a b c f df =
     Option.bind (get_col df a) (\<lambda>x.
       Option.bind (get_col df b) (\<lambda>y. Option.bind (get_col df c) (\<lambda>z. f x y z)))"

definition gt_int :: "series \<Rightarrow> series \<Rightarrow> series" where
  "gt_int xs ys = map2 (\<lambda>x y. if np_greater x y then Num 1 else Num 0) xs ys"

text \<open>\<open>Series.pct_change()\<close>: the bar-over-bar return, missing on the first row.\<close>

definition pct_change :: "series \<Rightarrow> series" where
  "pct_change xs = map (\<lambda>x. np_sub x (Num 1)) (map2 np_div xs (shift 1 xs))"

definition indicator_steps :: "('m, 's) env \<Rightarrow> step list" where
  "indicator_steps e =
     [assign ''sma_20'' (on1 ''close'' (\<lambda>c. ta_sma_indicator e c 20)),
      assign ''sma_50'' (on1 ''close'' (\<lambda>c. ta_sma_indicator e c 50)),
      assign ''ema_12'' (on1 ''close'' (\<lambda>c. ta_ema_indicator e c 12)),
      assign ''ema_26'' (on1 ''close'' (\<lambda>c. ta_ema_indicator e c 26)),
      assign ''bb_upper'' (on1 ''close'' (ta_bollinger_hband e)),
      assign ''bb_middle'' (on1 ''close'' (ta_bollinger_mavg e)),
      assign ''bb_lower'' (on1 ''close'' (ta_bollinger_lband e)),
      assign ''bb_width'' (on3 ''bb_upper'' ''bb_lower'' ''bb_middle''
        (\<lambda>u l m. Some (map2 np_div (map2 np_sub u l) m))),
      assign ''rsi'' (on1 ''close'' (\<lambda>c. ta_rsi e c 14)),
      assign ''macd'' (on1 ''close'' (ta_macd e)),
      assign ''macd_signal'' (on1 ''close'' (ta_macd_signal e)),
      assign ''macd_histogram'' (on1 ''close'' (ta_macd_diff e)),
      assign ''stoch_k'' (on3 ''high'' ''low'' ''close'' (ta_stoch e)),
      assign ''stoch_d'' (on3 ''high'' ''low'' ''close'' (ta_stoch_signal e)),
      assign ''atr'' (on3 ''high'' ''low'' ''close'' (ta_average_true_range e)),
      when_col ''tick_volume''
        (assign ''volume_sma'' (on2 ''close'' ''tick_volume'' (ta_volume_sma e))),
      when_col ''tick_volume''
        (assign ''volume_ratio'' (on2 ''tick_volume'' ''volume_sma''
          (\<lambda>v s. Some (map2 np_div v s)))),
      assign ''price_change'' (on1 ''close'' (\<lambda>c. Some (pct_change c))),
      assign ''high_low_ratio'' (on3 ''high'' ''low'' ''close''
        (\<lambda>h l c. Some (map2 np_div (map2 np_sub h l) c))),
      assign ''open_close_ratio'' (on2 ''close'' ''open''
        (\<lambda>c op. Some (map2 np_div (map2 np_sub c op) op))),
      assign ''price_above_sma20'' (on2 ''close'' ''sma_20'' (\<lambda>c s. Some (gt_int c s))),
      assign ''price_above_sma50'' (on2 ''close'' ''sma_50'' (\<lambda>c s. Some (gt_int c s))),
      assign ''sma20_above_sma50'' (on2 ''sma_20'' ''sma_50'' (\<lambda>a b. Some (gt_int a b)))]"

definition calculate_technical_indicators :: "('m, 's) env \<Rightarrow> frame \<Rightarrow> frame" where
  "calculate_technical_indicators e df = run_steps (indicator_steps e) df"

text \<open>
  \<open>prepare_features\<close>: the indicators, the lagged columns of \<open>close\<close>, \<open>rsi\<close> and
  \<open>macd\<close>, the store of the feature-column list in the service, and the drop of every
  row with a missing cell.
\<close>

definition base_feature_columns :: "string list" where
  "base_feature_columns =
     [''sma_20'', ''sma_50'', ''ema_12'', ''ema_26'',
      ''bb_width'', ''rsi'', ''macd'', ''macd_signal'', ''macd_histogram'',
      ''stoch_k'', ''stoch_d'', ''atr'', ''price_change'', ''high_low_ratio'',
      ''open_close_ratio'', ''price_above_sma20'', ''price_above_sma50'',
      ''sma20_above_sma50'']"

definition add_lags :: "string \<Rightarrow> frame \<times> string list \<Rightarrow> frame \<times> string list" where
  "add_lags c p =
     (case get_col (fst p) c of
        None \<Rightarrow> p
      | Some xs \<Rightarrow>
          (set_col (c @ ''_lag2'') (shift 2 xs) (set_col (c @ ''_lag1'') (shift 1 xs) (fst p)),
           snd p @ [c @ ''_lag1'', c @ ''_lag2'']))"

definition lagged :: "frame \<Rightarrow> frame \<times> string list" where
  "lagged df =
     add_lags ''macd'' (add_lags ''rsi'' (add_lags ''close'' (df, base_feature_columns)))"

definition prepare_features ::
  "('m, 's) env \<Rightarrow> ('m, 's) service \<Rightarrow> frame \<Rightarrow> ('m, 's) service \<times> frame" where
  "prepare_features e s df =
     (let p = lagged (calculate_technical_indicators e df)
      in (s\<lparr>feature_columns := filter (has_col (fst p)) (snd p)\<rparr>, dropna (fst p)))"

section \<open>Model trainer\<close>

text \<open>\<open>df[cs].values\<close>: the rows of the named columns; KeyError when one is missing.\<close>

definition frame_values :: "frame \<Rightarrow> string list \<Rightarrow> matrix option" where
  "frame_values df cs =
     map_option (\<lambda>xss. map (\<lambda>i. map (\<lambda>xs. xs ! i) xss) [0..<len df])
       (those (map (get_col df) cs))"

definition forest_params :: rf_params where
  "forest_params =
     \<lparr>n_estimators = 100, max_depth = 10, min_samples_split = 5, min_samples_leaf = 2,
      random_state = 42, n_jobs = - 1\<rparr>"

text \<open>
  \<open>train_model\<close> returns the service as the run leaves it and the run's result. Every
  raise inside it reaches the handler, which returns \<open>False\<close>; the fields assigned before
  the raise stay assigned.
\<close>

definition fit_and_store ::
  "('m, 's) env \<Rightarrow> ('m, 's) service \<Rightarrow> matrix \<Rightarrow> series \<Rightarrow> ('m, 's) service \<times> bool" where
  "fit_and_store e s X y =
     (case sk_train_test_split e X y 0.2 42 of
        None \<Rightarrow> (s, False)
      | Some (X_train, X_test, y_train, y_test) \<Rightarrow>
          (case sk_fit_transform e X_train of
             None \<Rightarrow> (s, False)
           | Some (sc, X_train_scaled) \<Rightarrow>
               let s1 = s\<lparr>scaler := FittedScaler sc\<rparr> in
               (case sk_transform e sc X_test of
                  None \<Rightarrow> (s1, False)
                | Some X_test_scaled \<Rightarrow>
                    let s2 = s1\<lparr>model := Some (UnfittedModel forest_params)\<rparr> in
                    (case sk_fit e forest_params X_train_scaled y_train of
                       None \<Rightarrow> (s2, False)
                     | Some m \<Rightarrow>
                         let s3 = s2\<lparr>model := Some (FittedModel m)\<rparr> in
                         (case sk_score e m X_train_scaled y_train of
                            None \<Rightarrow> (s3, False)
                          | Some train_score \<Rightarrow>
                              (case sk_score e m X_test_scaled y_test of
                                 None \<Rightarrow> (s3, False)
                               | Some test_score \<Rightarrow> (s3\<lparr>is_trained := True\<rparr>, True)))))))"

definition train_model ::
  "('m, 's) env \<Rightarrow> ('m, 's) service \<Rightarrow> string \<Rightarrow> string \<Rightarrow> ('m, 's) service \<times> bool" where
  "train_model e s symbol timeframe =
     (case get_market_data e symbol timeframe 5000 of
        None \<Rightarrow> (s, False)
      | Some df0 \<Rightarrow>
          if len df0 < 100 then (s, False)
          else
            let (s1, df1) = prepare_features e s df0;
                df2 = create_labels df1 5 0.001;
                df = dropna df2
            in if len df < 100 then (s1, False)
               else
                 (case frame_values df (feature_columns s1) of
                    None \<Rightarrow> (s1, False)
                  | Some X \<Rightarrow>
                      (case get_col df ''label'' of
                         None \<Rightarrow> (s1, False)
                       | Some y \<Rightarrow> fit_and_store e s1 X y)))"

section \<open>Signal generator\<close>

record analysis =
  prediction_probabilities :: "npfloat list"
  an_atr :: npfloat
  an_rsi :: "npfloat option"
  an_macd :: "npfloat option"

record signal =
  sig_symbol :: string
  signal_type :: string
  confidence_score :: npfloat
  entry_price :: npfloat
  stop_loss :: npfloat
  take_profit :: npfloat
  risk_reward_ratio :: npfloat
  sig_timeframe :: string
  analysis_data :: analysis

text \<open>\<open>xs[i]\<close> on a list or array: IndexError (\<open>None\<close>) out of range. \<open>s.iloc[-1]\<close>: the
  last value, IndexError on an empty series.\<close>

definition item :: "'a list \<Rightarrow> nat \<Rightarrow> 'a option" where
  "item xs i = (if i < length xs then Some (xs ! i) else None)"

definition iloc_last :: "'a list \<Rightarrow> 'a option" where
  "iloc_last xs = (if xs = [] then None else Some (last xs))"

definition last_of_col :: "frame \<Rightarrow> string \<Rightarrow> npfloat option" where
  "last_of_col df c = Option.bind (get_col df c) iloc_last"

text \<open>The classifier and scaler calls of the service; a call on a missing or unfitted
  object raises.\<close>

definition scaler_transform ::
  "('m, 's) env \<Rightarrow> ('m, 's) service \<Rightarrow> matrix \<Rightarrow> matrix option" where
  "scaler_transform e s X =
     (case scaler s of UnfittedScaler \<Rightarrow> None | FittedScaler sc \<Rightarrow> sk_transform e sc X)"

definition model_predict :: "('m, 's) env \<Rightarrow> ('m, 's) service \<Rightarrow> matrix \<Rightarrow> int option" where
  "model_predict e s X =
     (case model s of
        Some (FittedModel m) \<Rightarrow> Option.bind (sk_predict e m X) (\<lambda>ps. item ps 0)
      | _ \<Rightarrow> None)"

definition model_predict_proba ::
  "('m, 's) env \<Rightarrow> ('m, 's) service \<Rightarrow> matrix \<Rightarrow> npfloat list option" where
  "model_predict_proba e s X =
     (case model s of
        Some (FittedModel m) \<Rightarrow> Option.bind (sk_predict_proba e m X) (\<lambda>ps. item ps 0)
      | _ \<Rightarrow> None)"

text \<open>
  Lines 254 to 294 of \<open>generate_signal\<close>: from the prediction and the cleaned frame to the
  signal. \<open>None\<close> is the hold branch's \<open>return None\<close> as well as the handler's, which
  every raise reaches.
\<close>

definition build_signal ::
  "string \<Rightarrow> string \<Rightarrow> frame \<Rightarrow> int \<Rightarrow> npfloat list \<Rightarrow> signal option" where
  "build_signal symbol timeframe df prediction prediction_proba =
     (case last_of_col df ''close'' of
        None \<Rightarrow> None
      | Some current_price \<Rightarrow>
     (case (if has_col df ''atr'' then last_of_col df ''atr''
            else Some (np_mul current_price (Num 0.01))) of
        None \<Rightarrow> None
      | Some atr \<Rightarrow>
     (case (if prediction = 1 then
              map_option
                (\<lambda>confidence. (''buy'', confidence, current_price,
                   np_sub current_price (np_mul (Num 2) atr),
                   np_add current_price (np_mul (Num 3) atr)))
                (if 2 < length prediction_proba then item prediction_proba 2
                 else item prediction_proba 1)
            else if prediction = - 1 then
              map_option
                (\<lambda>confidence. (''sell'', confidence, current_price,
                   np_add current_price (np_mul (Num 2) atr),
                   np_sub current_price (np_mul (Num 3) atr)))
                (item prediction_proba 0)
            else None) of
        None \<Rightarrow> None
      | Some (signal_type', confidence, entry_price', stop_loss', take_profit') \<Rightarrow>
          let risk_reward_ratio' =
                np_div (np_abs (np_sub take_profit' entry_price'))
                       (np_abs (np_sub entry_price' stop_loss'))
          in (case (if has_col df ''rsi'' then map_option Some (last_of_col df ''rsi'')
                    else Some None) of
                None \<Rightarrow> None
              | Some rsi' \<Rightarrow>
             (case (if has_col df ''macd'' then map_option Some (last_of_col df ''macd'')
                    else Some None) of
                None \<Rightarrow> None
              | Some macd' \<Rightarrow>
                  Some \<lparr>sig_symbol = symbol, signal_type = signal_type',
                        confidence_score = confidence, entry_price = entry_price',
                        stop_loss = stop_loss', take_profit = take_profit',
                        risk_reward_ratio = risk_reward_ratio', sig_timeframe = timeframe,
                        analysis_data =
                          \<lparr>prediction_probabilities = prediction_proba, an_atr = atr,
                           an_rsi = rsi', an_macd = macd'\<rparr>\<rparr>)))))"

text \<open>Lines 234 to 252: the fetch of 100 bars, the features, and the prediction on the
  last complete row.\<close>

definition signal_from_data ::
  "('m, 's) env \<Rightarrow> ('m, 's) service \<Rightarrow> string \<Rightarrow> string \<Rightarrow>
   ('m, 's) service \<times> signal option" where
  "signal_from_data e s symbol timeframe =
     (case get_market_data e symbol timeframe 100 of
        None \<Rightarrow> (s, None)
      | Some df0 \<Rightarrow>
          if len df0 < 50 then (s, None)
          else
            let (s1, df1) = prepare_features e s df0;
                df = dropna df1
            in if len df = 0 then (s1, None)
               else
                 (s1,
                  Option.bind (frame_values df (feature_columns s1)) (\<lambda>X.
                  let latest_features = drop (length X - 1) X in
                  Option.bind (scaler_transform e s1 latest_features) (\<lambda>latest_features_scaled.
                  Option.bind (model_predict e s1 latest_features_scaled) (\<lambda>prediction.
                  Option.bind (model_predict_proba e s1 latest_features_scaled)
                    (\<lambda>prediction_proba.
                  build_signal symbol timeframe df prediction prediction_proba))))))"

definition generate_signal ::
  "('m, 's) env \<Rightarrow> ('m, 's) service \<Rightarrow> string \<Rightarrow> string \<Rightarrow>
   ('m, 's) service \<times> signal option" where
  "generate_signal e s symbol timeframe =
     (if \<not> is_trained s then
        (let (s1, ok) = train_model e s symbol timeframe
         in if \<not> ok then (s1, None) else signal_from_data e s1 symbol timeframe)
      else signal_from_data e s symbol timeframe)"

section \<open>Backtest simulator\<close>

record position =
  pos_type :: string
  pos_entry_price :: npfloat
  pos_entry_time :: nat
  pos_size :: npfloat

record trade =
  entry_time :: nat
  exit_time :: nat
  trade_type :: string
  trade_entry_price :: npfloat
  exit_price :: npfloat
  profit :: npfloat
  exit_reason :: string

record sim =
  balance :: npfloat
  open_position :: "position option"
  trades :: "trade list"

record report =
  initial_balance :: npfloat
  final_balance :: npfloat
  total_return_pct :: npfloat
  num_trades :: nat
  winning_trades :: nat
  win_rate_pct :: real
  average_profit_per_trade :: npfloat
  last_trades :: "trade list"

text \<open>Lines 386 to 427: what one bar does to the balance, the position and the trade
  list, given the prediction, the close and the time of the bar.\<close>

definition execute :: "int \<Rightarrow> npfloat \<Rightarrow> nat \<Rightarrow> sim \<Rightarrow> sim" where
  "execute prediction current_price now st =
     (case open_position st of
        None \<Rightarrow>
          if prediction \<noteq> 0 then
            st\<lparr>open_position :=
                 Some \<lparr>pos_type = (if prediction = 1 then ''buy'' else ''sell''),
                       pos_entry_price = current_price,
                       pos_entry_time = now,
                       pos_size = np_div (np_mul (balance st) (Num 0.1)) current_price\<rparr>\<rparr>
          else st
      | Some pos \<Rightarrow>
          let should_exit =
                (if pos_type pos = ''buy'' \<and> prediction = - 1 then True
                 else if pos_type pos = ''sell'' \<and> prediction = 1 then True
                 else False)
          in if should_exit then
               let profit' =
                     (if pos_type pos = ''buy''
                      then np_mul (np_sub current_price (pos_entry_price pos)) (pos_size pos)
                      else np_mul (np_sub (pos_entry_price pos) current_price) (pos_size pos))
               in \<lparr>balance = np_add (balance st) profit',
                   open_position = None,
                   trades = trades st @
                     [\<lparr>entry_time = pos_entry_time pos, exit_time = now,
                       trade_type = pos_type pos,
                       trade_entry_price = pos_entry_price pos,
                       exit_price = current_price, profit = profit',
                       exit_reason = ''Signal reversal''\<rparr>]\<rparr>
             else st)"

text \<open>Lines 374 to 384: the features of bar \<open>i\<close>, the prediction when the service is
  trained (an untrained service skips the bar), and the close. \<open>None\<close> is a raise.\<close>

definition bar_step ::
  "('m, 's) env \<Rightarrow> ('m, 's) service \<Rightarrow> frame \<Rightarrow> nat \<Rightarrow> sim \<Rightarrow> sim option" where
  "bar_step e s df i st =
     (case frame_values df (feature_columns s) of
        None \<Rightarrow> None
      | Some X \<Rightarrow>
          let features = [X ! i] in
          if is_trained s then
            Option.bind (scaler_transform e s features) (\<lambda>features_scaled.
            Option.bind (model_predict e s features_scaled) (\<lambda>prediction.
            Option.bind (get_col df ''close'') (\<lambda>close.
              Some (execute prediction (close ! i) (index df ! i) st))))
          else Some st)"

fun simulate ::
  "('m, 's) env \<Rightarrow> ('m, 's) service \<Rightarrow> frame \<Rightarrow> nat list \<Rightarrow> sim \<Rightarrow> sim option" where
  "simulate e s df [] st = Some st"
| "simulate e s df (i # is) st =
     (case bar_step e s df i st of None \<Rightarrow> None | Some st' \<Rightarrow> simulate e s df is st')"

text \<open>Lines 429 to 446: the performance report.\<close>

definition make_report :: "npfloat \<Rightarrow> sim \<Rightarrow> report" where
  "make_report initial_balance' st =
     (let total_return =
            np_mul (np_div (np_sub (balance st) initial_balance') initial_balance') (Num 100);
          num_trades' = length (trades st);
          winning_trades' = length (filter (\<lambda>t. np_greater (profit t) (Num 0)) (trades st));
          win_rate =
            (if 0 < num_trades' then real winning_trades' / real num_trades' * 100 else 0);
          avg_profit =
            (if 0 < num_trades'
             then np_div (foldl np_add (Num 0) (map profit (trades st)))
                         (Num (real num_trades'))
             else Num 0)
      in \<lparr>initial_balance = initial_balance', final_balance = balance st,
          total_return_pct = total_return, num_trades = num_trades',
          winning_trades = winning_trades', win_rate_pct = win_rate,
          average_profit_per_trade = avg_profit,
          last_trades = drop (length (trades st) - 10) (trades st)\<rparr>)"

definition start_sim :: sim where
  "start_sim = \<lparr>balance = Num 10000, open_position = None, trades = []\<rparr>"

text \<open>\<open>backtest_strategy\<close>: \<open>None\<close> is the empty dictionary the function returns on thin
  data and from its handler.\<close>

definition backtest_strategy ::
  "('m, 's) env \<Rightarrow> ('m, 's) service \<Rightarrow> string \<Rightarrow> string \<Rightarrow> int \<Rightarrow>
   ('m, 's) service \<times> report option" where
  "backtest_strategy e s symbol timeframe days =
     (case get_market_data e symbol timeframe (days * 24) of
        None \<Rightarrow> (s, None)
      | Some df0 \<Rightarrow>
          if len df0 < 100 then (s, None)
          else
            let (s1, df1) = prepare_features e s df0;
                df2 = create_labels df1 5 0.001;
                df = dropna df2
            in if len df < 50 then (s1, None)
               else (s1, map_option (make_report (Num 10000))
                           (simulate e s1 df [50..<len df] start_sim)))"

section \<open>Bars and the indicator frame\<close>

text \<open>
  The rates MetaTrader returns, one series per field, and the frame \<open>get_market_data\<close>
  builds from them (\<open>time\<close> becomes the index).
\<close>

record bars =
  b_time :: "nat list"
  b_open :: series
  b_high :: series
  b_low :: series
  b_close :: series
  b_tick_volume :: series
  b_spread :: series
  b_real_volume :: series

definition frame_of_bars :: "bars \<Rightarrow> frame" where
  "frame_of_bars b =
     \<lparr>index = b_time b,
      cols = [(''open'', b_open b), (''high'', b_high b), (''low'', b_low b),
              (''close'', b_close b), (''tick_volume'', b_tick_volume b),
              (''spread'', b_spread b), (''real_volume'', b_real_volume b)]\<rparr>"

text \<open>The series the indicator library returns on the bars, when no call raises.\<close>

record indicators =
  i_sma_20 :: series
  i_sma_50 :: series
  i_ema_12 :: series
  i_ema_26 :: series
  i_bb_upper :: series
  i_bb_middle :: series
  i_bb_lower :: series
  i_rsi :: series
  i_macd :: series
  i_macd_signal :: series
  i_macd_histogram :: series
  i_stoch_k :: series
  i_stoch_d :: series
  i_atr :: series
  i_volume_sma :: series

definition ta_outputs :: "('m, 's) env \<Rightarrow> bars \<Rightarrow> indicators option" where
  "ta_outputs e b =
     Option.bind (ta_sma_indicator e (b_close b) 20) (\<lambda>s20.
     Option.bind (ta_sma_indicator e (b_close b) 50) (\<lambda>s50.
     Option.bind (ta_ema_indicator e (b_close b) 12) (\<lambda>e12.
     Option.bind (ta_ema_indicator e (b_close b) 26) (\<lambda>e26.
     Option.bind (ta_bollinger_hband e (b_close b)) (\<lambda>bu.
     Option.bind (ta_bollinger_mavg e (b_close b)) (\<lambda>bm.
     Option.bind (ta_bollinger_lband e (b_close b)) (\<lambda>bl.
     Option.bind (ta_rsi e (b_close b) 14) (\<lambda>r.
     Option.bind (ta_macd e (b_close b)) (\<lambda>m.
     Option.bind (ta_macd_signal e (b_close b)) (\<lambda>ms.
     Option.bind (ta_macd_diff e (b_close b)) (\<lambda>md.
     Option.bind (ta_stoch e (b_high b) (b_low b) (b_close b)) (\<lambda>sk.
     Option.bind (ta_stoch_signal e (b_high b) (b_low b) (b_close b)) (\<lambda>sd.
     Option.bind (ta_average_true_range e (b_high b) (b_low b) (b_close b)) (\<lambda>av.
     Option.bind (ta_volume_sma e (b_close b) (b_tick_volume b)) (\<lambda>vs.
       Some \<lparr>i_sma_20 = s20, i_sma_50 = s50, i_ema_12 = e12, i_ema_26 = e26,
             i_bb_upper = bu, i_bb_middle = bm, i_bb_lower = bl, i_rsi = r,
             i_macd = m, i_macd_signal = ms, i_macd_histogram = md,
             i_stoch_k = sk, i_stoch_d = sd, i_atr = av,
             i_volume_sma = vs\<rparr>)))))))))))))))"

text \<open>The frame \<open>prepare_features\<close> holds before its \<open>dropna\<close>, when no call raised.\<close>

definition featured_frame :: "bars \<Rightarrow> indicators \<Rightarrow> frame" where
  "featured_frame b ind =
     \<lparr>index = b_time b,
      cols =
        [(''open'', b_open b), (''high'', b_high b), (''low'', b_low b),
         (''close'', b_close b), (''tick_volume'', b_tick_volume b),
         (''spread'', b_spread b), (''real_volume'', b_real_volume b),
         (''sma_20'', i_sma_20 ind), (''sma_50'', i_sma_50 ind),
         (''ema_12'', i_ema_12 ind), (''ema_26'', i_ema_26 ind),
         (''bb_upper'', i_bb_upper ind), (''bb_middle'', i_bb_middle ind),
         (''bb_lower'', i_bb_lower ind),
         (''bb_width'',
          map2 np_div (map2 np_sub (i_bb_upper ind) (i_bb_lower ind)) (i_bb_middle ind)),
         (''rsi'', i_rsi ind), (''macd'', i_macd ind),
         (''macd_signal'', i_macd_signal ind),
         (''macd_histogram'', i_macd_histogram ind),
         (''stoch_k'', i_stoch_k ind), (''stoch_d'', i_stoch_d ind),
         (''atr'', i_atr ind), (''volume_sma'', i_volume_sma ind),
         (''volume_ratio'', map2 np_div (b_tick_volume b) (i_volume_sma ind)),
         (''price_change'', pct_change (b_close b)),
         (''high_low_ratio'', map2 np_div (map2 np_sub (b_high b) (b_low b)) (b_close b)),
         (''open_close_ratio'',
          map2 np_div (map2 np_sub (b_close b) (b_open b)) (b_open b)),
         (''price_above_sma20'', gt_int (b_close b) (i_sma_20 ind)),
         (''price_above_sma50'', gt_int (b_close b) (i_sma_50 ind)),
         (''sma20_above_sma50'', gt_int (i_sma_20 ind) (i_sma_50 ind)),
         (''close_lag1'', shift 1 (b_close b)), (''close_lag2'', shift 2 (b_close b)),
         (''rsi_lag1'', shift 1 (i_rsi ind)), (''rsi_lag2'', shift 2 (i_rsi ind)),
         (''macd_lag1'', shift 1 (i_macd ind)), (''macd_lag2'', shift 2 (i_macd ind))]\<rparr>"

definition all_feature_columns :: "string list" where
  "all_feature_columns = base_feature_columns @
     [''close_lag1'', ''close_lag2'', ''rsi_lag1'', ''rsi_lag2'', ''macd_lag1'', ''macd_lag2'']"

text \<open>
  What the feature pipeline relies on. The bars are complete: every cell is a finite
  number and no open or close is 0. The indicators keep to their lookback: every series
  is on the index of the bars and finite from row 49 on (RSI and MACD, which are lagged by
  two rows, from row 47 on); the 50-bar average is missing on the 49 rows before its
  window is full; the Bollinger middle band and the volume average are not 0 from row 49
  on.
\<close>

definition is_num :: "npfloat \<Rightarrow> bool" where
  "is_num x = (case x of Num r \<Rightarrow> True | _ \<Rightarrow> False)"

definition finite_from :: "nat \<Rightarrow> series \<Rightarrow> bool" where
  "finite_from k xs = list_all is_num (drop k xs)"

definition nonzero_from :: "nat \<Rightarrow> series \<Rightarrow> bool" where
  "nonzero_from k xs = list_all (\<lambda>x. x \<noteq> Num 0) (drop k xs)"

definition missing_before :: "nat \<Rightarrow> series \<Rightarrow> bool" where
  "missing_before k xs = list_all (\<lambda>x. x = NaN) (take k xs)"

definition complete_bars :: "bars \<Rightarrow> bool" where
  "complete_bars b =
     (list_all (\<lambda>xs. length xs = length (b_time b) \<and> finite_from 0 xs)
        [b_open b, b_high b, b_low b, b_close b, b_tick_volume b, b_spread b,
         b_real_volume b] \<and>
      nonzero_from 0 (b_open b) \<and> nonzero_from 0 (b_close b))"

definition lookback_contract :: "nat \<Rightarrow> indicators \<Rightarrow> bool" where
  "lookback_contract n ind =
     (list_all (\<lambda>xs. length xs = n \<and> finite_from 49 xs)
        [i_sma_20 ind, i_sma_50 ind, i_ema_12 ind, i_ema_26 ind, i_bb_upper ind,
         i_bb_middle ind, i_bb_lower ind, i_rsi ind, i_macd ind, i_macd_signal ind,
         i_macd_histogram ind, i_stoch_k ind, i_stoch_d ind, i_atr ind,
         i_volume_sma ind] \<and>
      finite_from 47 (i_rsi ind) \<and> finite_from 47 (i_macd ind) \<and>
      missing_before 49 (i_sma_50 ind) \<and>
      nonzero_from 49 (i_bb_middle ind) \<and> nonzero_from 49 (i_volume_sma ind))"

section \<open>Notions for the simulation\<close>




section \<open>Sample inputs\<close>

text \<open>Concrete bars, used where a statement is evaluated on an input.\<close>

definition flat_bars :: frame where
  "flat_bars = \<lparr>index = [0, 1, 2, 3, 4, 5],
                 cols = [(''close'', replicate 6 (Num 100))]\<rparr>"

definition sample_bars :: frame where
  "sample_bars = \<lparr>index = [0, 1, 2, 3],
                   cols = [(''close'', [Num 100, Num 100, Num 101, Num 99])]\<rparr>"

text \<open>
  A stand-in for the libraries: every indicator is missing on the rows before its window
  is full and constant after, the scaler is the identity, and the classifier of class
  \<open>m\<close> predicts \<open>m\<close> on every row with the given probability vector.
\<close>

definition warm :: "nat \<Rightarrow> npfloat \<Rightarrow> series \<Rightarrow> series option" where
  "warm w v xs = Some (map (\<lambda>i. if i + 1 < w then NaN else v) [0..<length xs])"

definition steady :: "nat \<Rightarrow> bars" where
  "steady n =
     \<lparr>b_time = [0..<n], b_open = replicate n (Num 100), b_high = replicate n (Num 101),
      b_low = replicate n (Num 99), b_close = replicate n (Num 100),
      b_tick_volume = replicate n (Num 1000), b_spread = replicate n (Num 2),
      b_real_volume = replicate n (Num 0)\<rparr>"

definition steady_bars :: "nat \<Rightarrow> frame" where
  "steady_bars n = frame_of_bars (steady n)"

definition stub_env ::
  "(int \<Rightarrow> frame option) \<Rightarrow> npfloat \<Rightarrow> npfloat list \<Rightarrow> (int, unit) env" where
  "stub_env rates atr_value proba =
     \<lparr>mt5_copy_rates_from_pos = (\<lambda>symbol tf start count. rates count),
      ta_sma_indicator = (\<lambda>xs w. warm w (Num 100) xs),
      ta_ema_indicator = (\<lambda>xs w. warm w (Num 100) xs),
      ta_bollinger_hband = warm 20 (Num 102),
      ta_bollinger_mavg = warm 20 (Num 100),
      ta_bollinger_lband = warm 20 (Num 98),
      ta_rsi = (\<lambda>xs w. warm w (Num 50) xs),
      ta_macd = warm 26 (Num 0),
      ta_macd_signal = warm 34 (Num 0),
      ta_macd_diff = warm 34 (Num 0),
      ta_stoch = (\<lambda>h l c. warm 14 (Num 50) c),
      ta_stoch_signal = (\<lambda>h l c. warm 16 (Num 50) c),
      ta_average_true_range = (\<lambda>h l c. warm 14 atr_value c),
      ta_volume_sma = (\<lambda>c v. warm 20 (Num 1000) c),
      sk_train_test_split = (\<lambda>X y test_size seed.
        Some (take (length X * 4 div 5) X, drop (length X * 4 div 5) X,
              take (length y * 4 div 5) y, drop (length y * 4 div 5) y)),
      sk_fit_transform = (\<lambda>X. Some ((), X)),
      sk_transform = (\<lambda>sc X. Some X),
      sk_fit = (\<lambda>params X y. Some 1),
      sk_score = (\<lambda>m X y. Some 1),
      sk_predict = (\<lambda>m X. Some (map (\<lambda>row. m) X)),
      sk_predict_proba = (\<lambda>m X. Some (map (\<lambda>row. proba) X))\<rparr>"

definition trained :: "int \<Rightarrow> (int, unit) service" where
  "trained cls =
     \<lparr>model = Some (FittedModel cls), scaler = FittedScaler (), is_trained = True,
      feature_columns = all_feature_columns\<rparr>"

definition clean_row :: "nat \<Rightarrow> npfloat \<Rightarrow> frame" where
  "clean_row i atr_value =
     \<lparr>index = [i],
      cols =
       [(''open'', [Num 100]), (''high'', [Num 101]), (''low'', [Num 99]),
        (''close'', [Num 100]), (''tick_volume'', [Num 1000]),
        (''spread'', [Num 2]), (''real_volume'', [Num 0]),
        (''sma_20'', [Num 100]), (''sma_50'', [Num 100]),
        (''ema_12'', [Num 100]), (''ema_26'', [Num 100]),
        (''bb_upper'', [Num 102]), (''bb_middle'', [Num 100]),
        (''bb_lower'', [Num 98]), (''bb_width'', [Num (1 / 25)]),
        (''rsi'', [Num 50]), (''macd'', [Num 0]),
        (''macd_signal'', [Num 0]), (''macd_histogram'', [Num 0]),
        (''stoch_k'', [Num 50]), (''stoch_d'', [Num 50]),
        (''atr'', [atr_value]), (''volume_sma'', [Num 1000]),
        (''volume_ratio'', [Num 1]), (''price_change'', [Num 0]),
        (''high_low_ratio'', [Num (1 / 50)]),
        (''open_close_ratio'', [Num 0]), (''price_above_sma20'', [Num 0]),
        (''price_above_sma50'', [Num 0]), (''sma20_above_sma50'', [Num 0]),
        (''close_lag1'', [Num 100]), (''close_lag2'', [Num 100]),
        (''rsi_lag1'', [Num 50]), (''rsi_lag2'', [Num 50]),
        (''macd_lag1'', [Num 0]), (''macd_lag2'', [Num 0])]\<rparr>"

definition feature_row :: "npfloat \<Rightarrow> npfloat list" where
  "feature_row atr_value =
     [Num 100, Num 100, Num 100, Num 100, Num (1 / 25), Num 50, Num 0, Num 0, Num 0,
      Num 50, Num 50, atr_value, Num 0, Num (1 / 50), Num 0, Num 0, Num 0, Num 0,
      Num 100, Num 100, Num 50, Num 50, Num 0, Num 0]"




section \<open>Frames and columns\<close>

lemma len_set_col: "len (set_col c xs df) = len df"
  by (simp add: len_def set_col_def)

lemma get_col_set_col: "get_col (set_col c xs df) c' = (if c' = c then Some xs else get_col df c')"
  by (simp add: get_col_def set_col_def update_conv')

lemma has_col_set_col: "has_col (set_col c xs df) c' = (c' = c \<or> has_col df c')"
  by (simp add: has_col_def set_col_def update_conv')

lemma index_set_col: "index (set_col c xs df) = index df"
  by (simp add: set_col_def)

lemma length_shift: "length (shift k xs) = length xs"
  by (auto simp: shift_def)

lemma nth_shift_up:
  "i < length xs \<Longrightarrow> shift (- int k) xs ! i = (if i + k < length xs then xs ! (i + k) else NaN)"
proof (cases "i + k < length xs")
  case True
  then have "i < length xs - k" by arith
  with True show ?thesis by (simp add: shift_def nth_append add.commute)
next
  case False
  assume i: "i < length xs"
  from False i have a: "i - (length xs - k) < min k (length xs)" by arith
  from False have b: "\<not> i < length xs - k" by arith
  from a b False show ?thesis by (simp add: shift_def nth_append)
qed

lemma nth_shift_down:
  "i < length xs \<Longrightarrow> shift (int k) xs ! i = (if k \<le> i then xs ! (i - k) else NaN)"
  by (auto simp: shift_def nth_append)

lemma length_future_return: "length (future_return k close) = length close"
  by (simp add: future_return_def length_shift)

lemma nth_future_return:
  "i < length close \<Longrightarrow>
   future_return (int k) close ! i =
     (if i + k < length close then np_sub (np_div (close ! (i + k)) (close ! i)) (Num 1)
      else NaN)"
  by (simp add: future_return_def length_shift nth_shift_up np_sub_def)

lemma length_label_column: "length (label_column th fr) = length fr"
  by (simp add: label_column_def loc_set_def Let_def)

lemma nth_label_column:
  "i < length fr \<Longrightarrow>
   label_column th fr ! i =
     (if np_less (fr ! i) (Num (- th)) then Num (- 1)
      else if np_greater (fr ! i) (Num th) then Num 1 else Num 0)"
  by (simp add: label_column_def loc_set_def Let_def)

lemma np_less_trans_th:
  "0 \<le> th \<Longrightarrow> np_greater r (Num th) \<Longrightarrow> \<not> np_less r (Num (- th))"
  by (cases r) (auto simp: np_greater_def)

lemma row_complete_col:
  "row_complete df i \<Longrightarrow> get_col df c = Some xs \<Longrightarrow> xs ! i \<noteq> NaN"
  by (auto simp: row_complete_def get_col_def list_all_iff dest!: map_of_SomeD)


section \<open>The label generator\<close>

lemma length_filter_upt_le:
  assumes "\<And>i. i < n \<Longrightarrow> P i \<Longrightarrow> i < m"
  shows "length (filter P [0..<n]) \<le> m"
proof -
  have "set (filter P [0..<n]) \<subseteq> {0..<m}" using assms by auto
  moreover have "distinct (filter P [0..<n])" by simp
  ultimately have "card (set (filter P [0..<n])) \<le> card {0..<m}"
    by (intro card_mono) auto
  moreover have "length (filter P [0..<n]) = card (set (filter P [0..<n]))"
    by (rule distinct_card [symmetric]) simp
  ultimately show ?thesis by simp
qed

lemma len_dropna: "len (dropna df) = length (kept_rows df)"
  by (simp add: dropna_def take_rows_def len_def)

lemma create_labels_cols:
  assumes "get_col df ''close'' = Some close"
  shows "get_col (create_labels df k th) ''future_return'' = Some (future_return k close)"
    and "get_col (create_labels df k th) ''label'' = Some (label_column th (future_return k close))"
    and "len (create_labels df k th) = len df"
  using assms by (simp_all add: create_labels_def Let_def get_col_set_col len_set_col)

text \<open>
  C5 (as amended). \<open>create_labels\<close> keeps every row of its input. For a lookahead
  \<open>k\<close> and a threshold that is not negative, row \<open>i\<close> gets the future return
  \<open>close[i+k] / close[i] - 1\<close> when bar \<open>i + k\<close> exists and a missing value otherwise; its
  label is 1 (buy) exactly when the future return is above the threshold, -1 (sell)
  exactly when it is below the negated threshold and 0 (hold) otherwise, so the last
  \<open>k\<close> rows are labelled hold. The \<open>dropna\<close> that \<open>train_model\<close> and
  \<open>backtest_strategy\<close> apply next keeps none of the last \<open>k\<close> rows.
\<close>

theorem create_labels_rows:
  assumes wf: "wf_frame df" and close: "get_col df ''close'' = Some close"
    and th: "0 \<le> threshold"
  shows "len (create_labels df (int k) threshold) = len df \<and>
    (\<exists>fr lab.
       get_col (create_labels df (int k) threshold) ''future_return'' = Some fr \<and>
       get_col (create_labels df (int k) threshold) ''label'' = Some lab \<and>
       length fr = len df \<and> length lab = len df \<and>
       (\<forall>i<len df.
          fr ! i = (if i + k < len df
                    then np_sub (np_div (close ! (i + k)) (close ! i)) (Num 1) else NaN) \<and>
          (lab ! i = Num 1 \<longleftrightarrow> np_greater (fr ! i) (Num threshold)) \<and>
          (lab ! i = Num (- 1) \<longleftrightarrow> np_less (fr ! i) (Num (- threshold))) \<and>
          (lab ! i = Num 0 \<longleftrightarrow>
             \<not> np_greater (fr ! i) (Num threshold) \<and> \<not> np_less (fr ! i) (Num (- threshold))) \<and>
          (len df \<le> i + k \<longrightarrow> lab ! i = Num 0))) \<and>
    (\<forall>i\<in>set (kept_rows (create_labels df (int k) threshold)). i + k < len df) \<and>
    len (dropna (create_labels df (int k) threshold)) \<le> len df - k"
proof -
  let ?out = "create_labels df (int k) threshold"
  let ?fr = "future_return (int k) close"
  let ?lab = "label_column threshold ?fr"
  have lc: "length close = len df"
    using wf close by (auto simp: wf_frame_def get_col_def list_all_iff dest!: map_of_SomeD)
  have c1: "get_col ?out ''future_return'' = Some ?fr"
    and c2: "get_col ?out ''label'' = Some ?lab"
    and c3: "len ?out = len df"
    using create_labels_cols [OF close] by simp_all
  have frs: "?fr ! i = (if i + k < len df
                    then np_sub (np_div (close ! (i + k)) (close ! i)) (Num 1) else NaN)"
    if "i < len df" for i
    using that lc by (simp add: nth_future_return)
  have labs: "(?lab ! i = Num 1 \<longleftrightarrow> np_greater (?fr ! i) (Num threshold)) \<and>
          (?lab ! i = Num (- 1) \<longleftrightarrow> np_less (?fr ! i) (Num (- threshold))) \<and>
          (?lab ! i = Num 0 \<longleftrightarrow>
             \<not> np_greater (?fr ! i) (Num threshold) \<and> \<not> np_less (?fr ! i) (Num (- threshold)))"
    if "i < len df" for i
    using that lc th np_less_trans_th [OF th, of "?fr ! i"]
    by (auto simp: nth_label_column length_future_return)
  have tail: "?lab ! i = Num 0" if "i < len df" "len df \<le> i + k" for i
  proof -
    from that lc have "?fr ! i = NaN" by (simp add: nth_future_return)
    with that lc show ?thesis
      by (simp add: nth_label_column length_future_return np_greater_def)
  qed
  have kept: "i + k < len df" if "i \<in> set (kept_rows ?out)" for i
  proof (rule ccontr)
    assume n: "\<not> i + k < len df"
    from that have i: "i < len df" and rc: "row_complete ?out i"
      by (auto simp: kept_rows_def c3)
    from i n lc have "?fr ! i = NaN" by (simp add: nth_future_return)
    with row_complete_col [OF rc c1] show False by simp
  qed
  have "length (kept_rows ?out) \<le> len df - k"
    unfolding kept_rows_def c3
  proof (rule length_filter_upt_le)
    fix i assume "i < len df" "row_complete ?out i"
    then have "i \<in> set (kept_rows ?out)" by (simp add: kept_rows_def c3)
    from kept [OF this] show "i < len df - k" by arith
  qed
  then have drop: "len (dropna ?out) \<le> len df - k" by (simp add: len_dropna)
  have ex: "\<exists>fr lab.
       get_col ?out ''future_return'' = Some fr \<and>
       get_col ?out ''label'' = Some lab \<and>
       length fr = len df \<and> length lab = len df \<and>
       (\<forall>i<len df.
          fr ! i = (if i + k < len df
                    then np_sub (np_div (close ! (i + k)) (close ! i)) (Num 1) else NaN) \<and>
          (lab ! i = Num 1 \<longleftrightarrow> np_greater (fr ! i) (Num threshold)) \<and>
          (lab ! i = Num (- 1) \<longleftrightarrow> np_less (fr ! i) (Num (- threshold))) \<and>
          (lab ! i = Num 0 \<longleftrightarrow>
             \<not> np_greater (fr ! i) (Num threshold) \<and> \<not> np_less (fr ! i) (Num (- threshold))) \<and>
          (len df \<le> i + k \<longrightarrow> lab ! i = Num 0))"
  proof (intro exI conjI allI impI)
    show "get_col ?out ''future_return'' = Some ?fr" by (rule c1)
    show "get_col ?out ''label'' = Some ?lab" by (rule c2)
    show "length ?fr = len df" by (simp add: length_future_return lc)
    show "length ?lab = len df" by (simp add: length_label_column length_future_return lc)
  qed (use frs labs tail in blast)+
  from c3 ex kept drop show ?thesis by blast
qed

theorem create_labels_rows_witness:
  "wf_frame sample_bars \<and>
   get_col sample_bars ''close'' = Some [Num 100, Num 100, Num 101, Num 99] \<and>
   (0::real) \<le> 1 / 1000 \<and>
   len (create_labels sample_bars (int 1) (1 / 1000)) = len sample_bars \<and>
   len (dropna (create_labels sample_bars (int 1) (1 / 1000))) \<le> len sample_bars - 1"
proof -
  have h1: "wf_frame sample_bars" by code_simp
  have h2: "get_col sample_bars ''close'' = Some [Num 100, Num 100, Num 101, Num 99]"
    by code_simp
  have h3: "(0::real) \<le> 1 / 1000" by simp
  from create_labels_rows [OF h1 h2 h3, of 1] h1 h2 h3 show ?thesis by blast
qed

text \<open>
  C5 as stated fails: on six bars closing at 100, with lookahead 5 and threshold 0.001,
  \<open>create_labels\<close> returns all six rows, the last five labelled hold with a missing
  future return; it drops no row.
\<close>

theorem create_labels_keeps_trailing_rows:
  "len (create_labels flat_bars 5 (1 / 1000)) = 6 \<and>
   get_col (create_labels flat_bars 5 (1 / 1000)) ''label'' = Some (replicate 6 (Num 0)) \<and>
   get_col (create_labels flat_bars 5 (1 / 1000)) ''future_return'' =
     Some [Num 0, NaN, NaN, NaN, NaN, NaN]"
  by code_simp


section \<open>The signal generator\<close>

lemma dropna_col_length:
  "get_col (dropna df) c = Some xs \<Longrightarrow> length xs = len (dropna df)"
  by (auto simp: get_col_def dropna_def take_rows_def len_def dest!: map_of_SomeD)

lemma last_of_col_dropna:
  assumes "has_col (dropna df) c" "len (dropna df) \<noteq> 0"
  shows "\<exists>v. last_of_col (dropna df) c = Some v"
proof -
  from assms(1) obtain xs where xs: "get_col (dropna df) c = Some xs"
    by (auto simp: has_col_def get_col_def)
  from dropna_col_length [OF xs] assms(2) have "xs \<noteq> []" by auto
  with xs show ?thesis by (simp add: last_of_col_def iloc_last_def)
qed

lemma generate_signal_trained:
  "is_trained s \<Longrightarrow> generate_signal e s symbol timeframe = signal_from_data e s symbol timeframe"
  by (simp add: generate_signal_def)

lemma signal_from_data_unfold:
  assumes "get_market_data e symbol timeframe 100 = Some df0" "50 \<le> len df0"
    "prepare_features e s df0 = (s1, df1)" "len (dropna df1) \<noteq> 0"
    "frame_values (dropna df1) (feature_columns s1) = Some X"
    "scaler_transform e s1 (drop (length X - 1) X) = Some Xs"
    "model_predict e s1 Xs = Some prediction"
    "model_predict_proba e s1 Xs = Some proba"
  shows "signal_from_data e s symbol timeframe =
           (s1, build_signal symbol timeframe (dropna df1) prediction proba)"
  using assms by (simp add: signal_from_data_def Let_def)

lemma build_signal_hold:
  "prediction \<noteq> 1 \<Longrightarrow> prediction \<noteq> - 1 \<Longrightarrow> build_signal symbol timeframe df prediction proba = None"
  by (simp add: build_signal_def split: option.splits)

lemma build_signal_buy:
  assumes "last_of_col df ''close'' = Some cp" "has_col df ''atr''"
    "last_of_col df ''atr'' = Some atr" "2 \<le> length proba"
    "has_col df ''rsi'' \<longrightarrow> last_of_col df ''rsi'' \<noteq> None"
    "has_col df ''macd'' \<longrightarrow> last_of_col df ''macd'' \<noteq> None"
  shows "\<exists>sg. build_signal symbol timeframe df 1 proba = Some sg \<and>
           signal_type sg = ''buy'' \<and> entry_price sg = cp \<and>
           stop_loss sg = np_sub cp (np_mul (Num 2) atr) \<and>
           take_profit sg = np_add cp (np_mul (Num 3) atr) \<and>
           confidence_score sg = (if 2 < length proba then proba ! 2 else proba ! 1)"
  using assms by (auto simp: build_signal_def item_def Let_def)

lemma build_signal_sell:
  assumes "last_of_col df ''close'' = Some cp" "has_col df ''atr''"
    "last_of_col df ''atr'' = Some atr" "1 \<le> length proba"
    "has_col df ''rsi'' \<longrightarrow> last_of_col df ''rsi'' \<noteq> None"
    "has_col df ''macd'' \<longrightarrow> last_of_col df ''macd'' \<noteq> None"
  shows "\<exists>sg. build_signal symbol timeframe df (- 1) proba = Some sg \<and>
           signal_type sg = ''sell'' \<and> entry_price sg = cp \<and>
           stop_loss sg = np_add cp (np_mul (Num 2) atr) \<and>
           take_profit sg = np_sub cp (np_mul (Num 3) atr) \<and>
           confidence_score sg = proba ! 0"
  using assms by (auto simp: build_signal_def item_def Let_def)

lemma signal_from_data_no_data:
  "get_market_data e symbol timeframe 100 = None \<Longrightarrow>
   snd (signal_from_data e s symbol timeframe) = None"
  by (simp add: signal_from_data_def)

lemma signal_from_data_short:
  "get_market_data e symbol timeframe 100 = Some df0 \<Longrightarrow> len df0 < 50 \<Longrightarrow>
   snd (signal_from_data e s symbol timeframe) = None"
  by (simp add: signal_from_data_def)

lemma signal_from_data_no_row:
  "get_market_data e symbol timeframe 100 = Some df0 \<Longrightarrow>
   len (dropna (snd (prepare_features e s df0))) = 0 \<Longrightarrow>
   snd (signal_from_data e s symbol timeframe) = None"
  by (cases "prepare_features e s df0") (simp add: signal_from_data_def Let_def)

lemma signal_from_data_raise:
  assumes "get_market_data e symbol timeframe 100 = Some df0"
    "prepare_features e s df0 = (s1, df1)"
    "frame_values (dropna df1) (feature_columns s1) = Some X"
    "scaler_transform e s1 (drop (length X - 1) X) = None \<or>
     (\<exists>Xs. scaler_transform e s1 (drop (length X - 1) X) = Some Xs \<and>
        (model_predict e s1 Xs = None \<or> model_predict_proba e s1 Xs = None))"
  shows "snd (signal_from_data e s symbol timeframe) = None"
  using assms
  by (auto simp: signal_from_data_def Let_def)


text \<open>
  C1 (as amended). On a trained service, \<open>generate_signal\<close> returns \<open>None\<close> when the fetch
  gives no data or fewer than 50 bars, when no complete feature row remains, and when the
  scaler or the classifier raises. When at least 50 bars are fetched, a complete row
  remains, the scaler and the classifier return, the predicted class is one of -1, 0, 1,
  the probability vector holds the entry the confidence is read from (two entries for a
  buy, one for a sell), and the latest close and ATR are finite with ATR above 0, the
  result is \<open>None\<close> exactly when the predicted class is hold (0); for buy (1) the signal
  has entry at the latest close, stop at entry - 2 ATR and target at entry + 3 ATR, so
  stop < entry < target; for sell (-1) stop at entry + 2 ATR and target at
  entry - 3 ATR, so target < entry < stop.
\<close>

theorem generate_signal_by_class:
  assumes trained: "is_trained s"
  shows "(get_market_data e symbol timeframe 100 = None \<longrightarrow>
       snd (generate_signal e s symbol timeframe) = None) \<and>
    (get_market_data e symbol timeframe 100 = Some df0 \<and> len df0 < 50 \<longrightarrow>
       snd (generate_signal e s symbol timeframe) = None) \<and>
    (get_market_data e symbol timeframe 100 = Some df0 \<and>
     len (dropna (snd (prepare_features e s df0))) = 0 \<longrightarrow>
       snd (generate_signal e s symbol timeframe) = None) \<and>
    (get_market_data e symbol timeframe 100 = Some df0 \<and>
     prepare_features e s df0 = (s1, df1) \<and>
     frame_values (dropna df1) (feature_columns s1) = Some X \<and>
     (scaler_transform e s1 (drop (length X - 1) X) = None \<or>
      scaler_transform e s1 (drop (length X - 1) X) = Some Xs \<and>
        (model_predict e s1 Xs = None \<or> model_predict_proba e s1 Xs = None)) \<longrightarrow>
       snd (generate_signal e s symbol timeframe) = None) \<and>
    (get_market_data e symbol timeframe 100 = Some df0 \<and> 50 \<le> len df0 \<and>
     prepare_features e s df0 = (s1, df1) \<and> len (dropna df1) \<noteq> 0 \<and>
     frame_values (dropna df1) (feature_columns s1) = Some X \<and>
     scaler_transform e s1 (drop (length X - 1) X) = Some Xs \<and>
     model_predict e s1 Xs = Some prediction \<and> prediction \<in> {- 1, 0, 1} \<and>
     model_predict_proba e s1 Xs = Some proba \<and>
     (prediction = 1 \<longrightarrow> 2 \<le> length proba) \<and>
     (prediction = - 1 \<longrightarrow> 1 \<le> length proba) \<and>
     last_of_col (dropna df1) ''close'' = Some (Num c) \<and>
     has_col (dropna df1) ''atr'' \<and>
     last_of_col (dropna df1) ''atr'' = Some (Num a) \<and> 0 < a \<longrightarrow>
       (snd (generate_signal e s symbol timeframe) = None \<longleftrightarrow> prediction = 0) \<and>
       (prediction = 1 \<longrightarrow>
          (\<exists>sg. snd (generate_signal e s symbol timeframe) = Some sg \<and>
             signal_type sg = ''buy'' \<and> entry_price sg = Num c \<and>
             stop_loss sg = Num (c - 2 * a) \<and> take_profit sg = Num (c + 3 * a) \<and>
             np_less (stop_loss sg) (entry_price sg) \<and>
             np_less (entry_price sg) (take_profit sg))) \<and>
       (prediction = - 1 \<longrightarrow>
          (\<exists>sg. snd (generate_signal e s symbol timeframe) = Some sg \<and>
             signal_type sg = ''sell'' \<and> entry_price sg = Num c \<and>
             stop_loss sg = Num (c + 2 * a) \<and> take_profit sg = Num (c - 3 * a) \<and>
             np_less (take_profit sg) (entry_price sg) \<and>
             np_less (entry_price sg) (stop_loss sg))))"
proof (intro conjI impI)
  note gs = generate_signal_trained [OF trained, of e symbol timeframe]
  show "snd (generate_signal e s symbol timeframe) = None"
    if "get_market_data e symbol timeframe 100 = None"
    using that by (simp add: gs signal_from_data_no_data)
  show "snd (generate_signal e s symbol timeframe) = None"
    if "get_market_data e symbol timeframe 100 = Some df0 \<and> len df0 < 50"
    using that by (simp add: gs signal_from_data_short)
  show "snd (generate_signal e s symbol timeframe) = None"
    if "get_market_data e symbol timeframe 100 = Some df0 \<and>
        len (dropna (snd (prepare_features e s df0))) = 0"
    using that by (simp add: gs signal_from_data_no_row)
  show "snd (generate_signal e s symbol timeframe) = None"
    if "get_market_data e symbol timeframe 100 = Some df0 \<and>
     prepare_features e s df0 = (s1, df1) \<and>
     frame_values (dropna df1) (feature_columns s1) = Some X \<and>
     (scaler_transform e s1 (drop (length X - 1) X) = None \<or>
      scaler_transform e s1 (drop (length X - 1) X) = Some Xs \<and>
        (model_predict e s1 Xs = None \<or> model_predict_proba e s1 Xs = None))"
    using that signal_from_data_raise [of e symbol timeframe df0 s s1 df1 X]
    by (auto simp: gs)
next
  assume h: "get_market_data e symbol timeframe 100 = Some df0 \<and> 50 \<le> len df0 \<and>
     prepare_features e s df0 = (s1, df1) \<and> len (dropna df1) \<noteq> 0 \<and>
     frame_values (dropna df1) (feature_columns s1) = Some X \<and>
     scaler_transform e s1 (drop (length X - 1) X) = Some Xs \<and>
     model_predict e s1 Xs = Some prediction \<and> prediction \<in> {- 1, 0, 1} \<and>
     model_predict_proba e s1 Xs = Some proba \<and>
     (prediction = 1 \<longrightarrow> 2 \<le> length proba) \<and>
     (prediction = - 1 \<longrightarrow> 1 \<le> length proba) \<and>
     last_of_col (dropna df1) ''close'' = Some (Num c) \<and>
     has_col (dropna df1) ''atr'' \<and>
     last_of_col (dropna df1) ''atr'' = Some (Num a) \<and> 0 < a"
  let ?df = "dropna df1"
  let ?R = "snd (generate_signal e s symbol timeframe)"
  from h have data: "get_market_data e symbol timeframe 100 = Some df0" "50 \<le> len df0"
    and prep: "prepare_features e s df0 = (s1, df1)" "len ?df \<noteq> 0"
    and features: "frame_values ?df (feature_columns s1) = Some X"
    and scaled: "scaler_transform e s1 (drop (length X - 1) X) = Some Xs"
    and pred: "model_predict e s1 Xs = Some prediction" "prediction \<in> {- 1, 0, 1}"
    and proba: "model_predict_proba e s1 Xs = Some proba"
    and pb: "prediction = 1 \<longrightarrow> 2 \<le> length proba"
    and ps: "prediction = - 1 \<longrightarrow> 1 \<le> length proba"
    and price: "last_of_col ?df ''close'' = Some (Num c)"
    and atr: "has_col ?df ''atr''" "last_of_col ?df ''atr'' = Some (Num a)" "0 < a"
    by simp_all
  have res: "?R = build_signal symbol timeframe ?df prediction proba"
    using generate_signal_trained [OF trained]
      signal_from_data_unfold [OF data prep features scaled pred(1) proba]
    by simp
  have rsi: "has_col ?df ''rsi'' \<longrightarrow> last_of_col ?df ''rsi'' \<noteq> None"
    using last_of_col_dropna [of df1 "''rsi''"] prep(2) by auto
  have macd: "has_col ?df ''macd'' \<longrightarrow> last_of_col ?df ''macd'' \<noteq> None"
    using last_of_col_dropna [of df1 "''macd''"] prep(2) by auto
  have p1: "\<exists>sg. ?R = Some sg \<and>
          signal_type sg = ''buy'' \<and> entry_price sg = Num c \<and>
          stop_loss sg = Num (c - 2 * a) \<and> take_profit sg = Num (c + 3 * a) \<and>
          np_less (stop_loss sg) (entry_price sg) \<and>
          np_less (entry_price sg) (take_profit sg)" if b: "prediction = 1"
  proof -
    from b pb have "2 \<le> length proba" by simp
    from build_signal_buy [OF price atr(1) atr(2) this rsi macd, of symbol timeframe] res b
    obtain sg where "?R = Some sg"
      "signal_type sg = ''buy''" "entry_price sg = Num c"
      "stop_loss sg = np_sub (Num c) (np_mul (Num 2) (Num a))"
      "take_profit sg = np_add (Num c) (np_mul (Num 3) (Num a))"
      by auto
    with atr(3) show ?thesis by (simp add: np_sub_def)
  qed
  have p2: "\<exists>sg. ?R = Some sg \<and>
          signal_type sg = ''sell'' \<and> entry_price sg = Num c \<and>
          stop_loss sg = Num (c + 2 * a) \<and> take_profit sg = Num (c - 3 * a) \<and>
          np_less (take_profit sg) (entry_price sg) \<and>
          np_less (entry_price sg) (stop_loss sg)" if b: "prediction = - 1"
  proof -
    from b ps have "1 \<le> length proba" by simp
    from build_signal_sell [OF price atr(1) atr(2) this rsi macd, of symbol timeframe] res b
    obtain sg where "?R = Some sg"
      "signal_type sg = ''sell''" "entry_price sg = Num c"
      "stop_loss sg = np_add (Num c) (np_mul (Num 2) (Num a))"
      "take_profit sg = np_sub (Num c) (np_mul (Num 3) (Num a))"
      by auto
    with atr(3) show ?thesis by (simp add: np_sub_def)
  qed
  show "?R = None \<longleftrightarrow> prediction = 0"
  proof
    assume n: "?R = None"
    show "prediction = 0"
    proof (rule ccontr)
      assume "prediction \<noteq> 0"
      with pred(2) have "prediction = 1 \<or> prediction = - 1" by auto
      with p1 p2 n show False by auto
    qed
  next
    assume "prediction = 0"
    with res show "?R = None" by (simp add: build_signal_hold)
  qed
  show "\<exists>sg. ?R = Some sg \<and>
          signal_type sg = ''buy'' \<and> entry_price sg = Num c \<and>
          stop_loss sg = Num (c - 2 * a) \<and> take_profit sg = Num (c + 3 * a) \<and>
          np_less (stop_loss sg) (entry_price sg) \<and>
          np_less (entry_price sg) (take_profit sg)" if "prediction = 1"
    using that by (rule p1)
  show "\<exists>sg. ?R = Some sg \<and>
          signal_type sg = ''sell'' \<and> entry_price sg = Num c \<and>
          stop_loss sg = Num (c + 2 * a) \<and> take_profit sg = Num (c - 3 * a) \<and>
          np_less (take_profit sg) (entry_price sg) \<and>
          np_less (entry_price sg) (stop_loss sg)" if "prediction = - 1"
    using that by (rule p2)
qed



lemma prep0:
  "prepare_features (stub_env rates (Num a) proba) s (steady_bars 50) =
     (s\<lparr>feature_columns := all_feature_columns\<rparr>, clean_row 49 (Num a))"
  by code_simp

lemma dropna_clean_row: "dropna (clean_row 49 (Num a)) = clean_row 49 (Num a)"
  by code_simp

lemma values_clean_row:
  "frame_values (clean_row 49 (Num a)) all_feature_columns = Some [feature_row (Num a)]"
  by code_simp

lemma len_clean_row: "len (clean_row i a) = 1"
  by (simp add: len_def clean_row_def)

lemma len_steady_bars: "len (steady_bars n) = n"
  by (simp add: len_def steady_bars_def frame_of_bars_def steady_def)

lemma stub_market_data:
  "0 < n \<Longrightarrow> get_market_data (stub_env (\<lambda>count. Some (steady_bars n)) a p) symbol timeframe k
     = Some (steady_bars n)"
  by (simp add: get_market_data_def stub_env_def len_steady_bars)

lemma last_clean_row:
  "last_of_col (clean_row i a) ''close'' = Some (Num 100)"
  "last_of_col (clean_row i a) ''atr'' = Some a"
  "last_of_col (clean_row i a) ''rsi'' = Some (Num 50)"
  "last_of_col (clean_row i a) ''macd'' = Some (Num 0)"
  "has_col (clean_row i a) ''atr''"
  "has_col (clean_row i a) ''rsi''"
  "has_col (clean_row i a) ''macd''"
  by (simp_all add: clean_row_def last_of_col_def iloc_last_def get_col_def has_col_def)

lemma stub_predictions:
  "scaler_transform (stub_env r a p) (trained cls\<lparr>feature_columns := fc\<rparr>) [x] = Some [x]"
  "model_predict (stub_env r a p) (trained cls\<lparr>feature_columns := fc\<rparr>) [x] = Some cls"
  "model_predict_proba (stub_env r a p) (trained cls\<lparr>feature_columns := fc\<rparr>) [x] = Some p"
  by (simp_all add: scaler_transform_def model_predict_def model_predict_proba_def
      stub_env_def trained_def item_def)

lemma stub_signal:
  "snd (generate_signal (stub_env (\<lambda>count. Some (steady_bars 50)) (Num a) p) (trained cls)
          symbol timeframe) =
     build_signal symbol timeframe (clean_row 49 (Num a)) cls p"
proof -
  let ?e = "stub_env (\<lambda>count. Some (steady_bars 50)) (Num a) p"
  have "is_trained (trained cls)" by (simp add: trained_def)
  then have "generate_signal ?e (trained cls) symbol timeframe =
      signal_from_data ?e (trained cls) symbol timeframe"
    by (rule generate_signal_trained)
  moreover have "signal_from_data ?e (trained cls) symbol timeframe =
      (trained cls\<lparr>feature_columns := all_feature_columns\<rparr>,
       build_signal symbol timeframe (dropna (clean_row 49 (Num a))) cls p)"
    by (rule signal_from_data_unfold [where ?df0.0 = "steady_bars 50"
          and X = "[feature_row (Num a)]" and Xs = "[feature_row (Num a)]"])
       (simp_all add: stub_market_data len_steady_bars prep0 dropna_clean_row len_clean_row
          values_clean_row stub_predictions)
  ultimately show ?thesis by (simp add: dropna_clean_row)
qed

lemma trained_feature_columns:
  "trained cls\<lparr>feature_columns := all_feature_columns\<rparr> = trained cls"
  by (simp add: trained_def)

theorem generate_signal_by_class_witness:
  "is_trained (trained 1) \<and>
   get_market_data (stub_env (\<lambda>count. Some (steady_bars 50)) (Num (1 / 2))
       [Num (1 / 10), Num (1 / 5), Num (7 / 10)]) ''EURUSD'' ''H1'' 100 = Some (steady_bars 50) \<and>
   len (steady_bars 50) = 50 \<and>
   (\<exists>sg. snd (generate_signal (stub_env (\<lambda>count. Some (steady_bars 50)) (Num (1 / 2))
                [Num (1 / 10), Num (1 / 5), Num (7 / 10)]) (trained 1) ''EURUSD'' ''H1'') = Some sg \<and>
      signal_type sg = ''buy'' \<and> entry_price sg = Num 100 \<and>
      stop_loss sg = Num 99 \<and> take_profit sg = Num (203 / 2))"
proof -
  let ?p = "[Num (1 / 10), Num (1 / 5), Num (7 / 10)]"
  let ?e = "stub_env (\<lambda>count. Some (steady_bars 50)) (Num (1 / 2)) ?p"
  let ?s1 = "trained 1\<lparr>feature_columns := all_feature_columns\<rparr>"
  let ?X = "[feature_row (Num (1 / 2))]"
  let ?df1 = "clean_row 49 (Num (1 / 2))"
  have h1: "is_trained (trained 1)" by (simp add: trained_def)
  have h2: "get_market_data ?e ''EURUSD'' ''H1'' 100 = Some (steady_bars 50)"
    by (simp add: stub_market_data)
  have h3: "len (steady_bars 50) = 50" by (simp add: len_steady_bars)
  have hyps: "get_market_data ?e ''EURUSD'' ''H1'' 100 = Some (steady_bars 50) \<and>
     50 \<le> len (steady_bars 50) \<and>
     prepare_features ?e (trained 1) (steady_bars 50) = (?s1, ?df1) \<and>
     len (dropna ?df1) \<noteq> 0 \<and>
     frame_values (dropna ?df1) (feature_columns ?s1) = Some ?X \<and>
     scaler_transform ?e ?s1 (drop (length ?X - 1) ?X) = Some ?X \<and>
     model_predict ?e ?s1 ?X = Some 1 \<and> (1::int) \<in> {- 1, 0, 1} \<and>
     model_predict_proba ?e ?s1 ?X = Some ?p \<and>
     ((1::int) = 1 \<longrightarrow> 2 \<le> length ?p) \<and>
     ((1::int) = - 1 \<longrightarrow> 1 \<le> length ?p) \<and>
     last_of_col (dropna ?df1) ''close'' = Some (Num 100) \<and>
     has_col (dropna ?df1) ''atr'' \<and>
     last_of_col (dropna ?df1) ''atr'' = Some (Num (1 / 2)) \<and> (0::real) < 1 / 2"
    by (simp add: stub_market_data len_steady_bars prep0 dropna_clean_row len_clean_row
        values_clean_row stub_predictions last_clean_row)
  from generate_signal_by_class [OF h1, of ?e "''EURUSD''" "''H1''" "steady_bars 50" ?s1 ?df1
      ?X ?X 1 ?p 100 "1 / 2"] hyps
  have "\<exists>sg. snd (generate_signal ?e (trained 1) ''EURUSD'' ''H1'') = Some sg \<and>
      signal_type sg = ''buy'' \<and> entry_price sg = Num 100 \<and>
      stop_loss sg = Num (100 - 2 * (1 / 2)) \<and> take_profit sg = Num (100 + 3 * (1 / 2))"
    by blast
  then have "\<exists>sg. snd (generate_signal ?e (trained 1) ''EURUSD'' ''H1'') = Some sg \<and>
      signal_type sg = ''buy'' \<and> entry_price sg = Num 100 \<and>
      stop_loss sg = Num 99 \<and> take_profit sg = Num (203 / 2)"
    by simp
  with h1 h2 h3 show ?thesis by blast
qed


text \<open>
  C1 as stated fails: with 49 bars fetched and a trained classifier that predicts buy on
  every row, the guard on the number of bars makes \<open>generate_signal\<close> return \<open>None\<close>
  although no predicted class is hold.
\<close>

theorem short_history_gives_no_signal:
  "is_trained (trained 1) \<and>
   get_market_data (stub_env (\<lambda>count. Some (steady_bars 49)) (Num (1 / 2))
       [Num (1 / 10), Num (1 / 5), Num (7 / 10)]) ''EURUSD'' ''H1'' 100 = Some (steady_bars 49) \<and>
   len (steady_bars 49) = 49 \<and>
   model_predict (stub_env (\<lambda>count. Some (steady_bars 49)) (Num (1 / 2))
       [Num (1 / 10), Num (1 / 5), Num (7 / 10)]) (trained 1) [feature_row (Num (1 / 2))] = Some 1 \<and>
   snd (generate_signal (stub_env (\<lambda>count. Some (steady_bars 49)) (Num (1 / 2))
          [Num (1 / 10), Num (1 / 5), Num (7 / 10)]) (trained 1) ''EURUSD'' ''H1'') = None"
  using stub_predictions [where cls = 1 and fc = all_feature_columns]
  by (simp add: generate_signal_def signal_from_data_def stub_market_data len_steady_bars
      trained_feature_columns)
    (simp add: trained_def)

lemma build_signal_SomeD:
  assumes "build_signal symbol timeframe df prediction proba = Some sg"
  shows "risk_reward_ratio sg =
           np_div (np_abs (np_sub (take_profit sg) (entry_price sg)))
                  (np_abs (np_sub (entry_price sg) (stop_loss sg))) \<and>
         (prediction = 1 \<and> signal_type sg = ''buy'' \<and>
            stop_loss sg = np_sub (entry_price sg) (np_mul (Num 2) (an_atr (analysis_data sg))) \<and>
            take_profit sg = np_add (entry_price sg) (np_mul (Num 3) (an_atr (analysis_data sg)))
          \<or> prediction = - 1 \<and> signal_type sg = ''sell'' \<and>
            stop_loss sg = np_add (entry_price sg) (np_mul (Num 2) (an_atr (analysis_data sg))) \<and>
            take_profit sg = np_sub (entry_price sg) (np_mul (Num 3) (an_atr (analysis_data sg))))"
  using assms
  by (auto simp: build_signal_def Let_def split: option.splits if_splits)

lemma signal_from_data_SomeD:
  assumes "snd (signal_from_data e s symbol timeframe) = Some sg"
  shows "\<exists>df prediction proba. build_signal symbol timeframe df prediction proba = Some sg"
  using assms
  by (auto simp: signal_from_data_def Let_def bind_eq_Some_conv
      split: option.splits if_splits prod.splits)

lemma generate_signal_SomeD:
  assumes "snd (generate_signal e s symbol timeframe) = Some sg"
  shows "\<exists>df prediction proba. build_signal symbol timeframe df prediction proba = Some sg"
  using assms signal_from_data_SomeD
  by (auto simp: generate_signal_def split: if_splits prod.splits)

text \<open>
  C2 (as amended). Every signal \<open>generate_signal\<close> returns has
  risk_reward_ratio = |take_profit - entry_price| / |entry_price - stop_loss| in numpy
  arithmetic; when the ATR it was built from is 0 and the entry is finite, stop and
  target equal the entry and the ratio is NaN. No error is raised.
\<close>

theorem risk_reward_of_signal:
  assumes "snd (generate_signal e s symbol timeframe) = Some sg"
  shows "risk_reward_ratio sg =
           np_div (np_abs (np_sub (take_profit sg) (entry_price sg)))
                  (np_abs (np_sub (entry_price sg) (stop_loss sg))) \<and>
         (\<forall>c. entry_price sg = Num c \<and> an_atr (analysis_data sg) = Num 0 \<longrightarrow>
            stop_loss sg = Num c \<and> take_profit sg = Num c \<and> risk_reward_ratio sg = NaN)"
proof -
  from generate_signal_SomeD [OF assms] obtain df prediction proba
    where "build_signal symbol timeframe df prediction proba = Some sg" by blast
  from build_signal_SomeD [OF this] show ?thesis
    by (auto simp: np_sub_def)
qed

lemma stub_buy_signal:
  "snd (generate_signal (stub_env (\<lambda>count. Some (steady_bars 50)) (Num a)
          [Num (1 / 10), Num (1 / 5), Num (7 / 10)]) (trained 1) ''EURUSD'' ''H1'') =
     Some \<lparr>sig_symbol = ''EURUSD'', signal_type = ''buy'', confidence_score = Num (7 / 10),
           entry_price = Num 100, stop_loss = Num (100 - 2 * a),
           take_profit = Num (100 + 3 * a),
           risk_reward_ratio = np_div (Num \<bar>3 * a\<bar>) (Num \<bar>2 * a\<bar>),
           sig_timeframe = ''H1'',
           analysis_data =
             \<lparr>prediction_probabilities = [Num (1 / 10), Num (1 / 5), Num (7 / 10)],
              an_atr = Num a, an_rsi = Some (Num 50), an_macd = Some (Num 0)\<rparr>\<rparr>"
  by (simp add: stub_signal build_signal_def last_clean_row item_def np_sub_def)

theorem risk_reward_of_signal_witness:
  "risk_reward_ratio
     (the (snd (generate_signal (stub_env (\<lambda>count. Some (steady_bars 50)) (Num (1 / 2))
          [Num (1 / 10), Num (1 / 5), Num (7 / 10)]) (trained 1) ''EURUSD'' ''H1''))) =
   Num (3 / 2)"
  using risk_reward_of_signal [OF stub_buy_signal [of "1 / 2"]]
  by (simp add: stub_buy_signal np_sub_def)

text \<open>
  C2 as stated fails: with an ATR of 0 on the latest row, \<open>generate_signal\<close> returns a
  buy signal whose stop and target equal the entry and whose risk/reward ratio is NaN.
\<close>

theorem zero_atr_signal_has_nan_ratio:
  "snd (generate_signal (stub_env (\<lambda>count. Some (steady_bars 50)) (Num 0)
          [Num (1 / 10), Num (1 / 5), Num (7 / 10)]) (trained 1) ''EURUSD'' ''H1'') =
     Some \<lparr>sig_symbol = ''EURUSD'', signal_type = ''buy'', confidence_score = Num (7 / 10),
           entry_price = Num 100, stop_loss = Num 100, take_profit = Num 100,
           risk_reward_ratio = NaN, sig_timeframe = ''H1'',
           analysis_data =
             \<lparr>prediction_probabilities = [Num (1 / 10), Num (1 / 5), Num (7 / 10)],
              an_atr = Num 0, an_rsi = Some (Num 50), an_macd = Some (Num 0)\<rparr>\<rparr>"
  by (simp add: stub_buy_signal [of 0])

section \<open>The backtest simulator\<close>


lemma foldl_np_add_snoc:
  "foldl np_add a (xs @ [p]) = np_add (foldl np_add a xs) p"
  by simp












end
